theory Spec2Isabelle
  imports Main "HOL-Library.Word"
begin

unbundle bit_operations_syntax

section \<open>The upgrade keeper of x/upgrade/keeper.go\<close>

subsection \<open>Values the keeper works on\<close>

type_synonym byte = "8 word"

text \<open>
  Go's \<^verbatim>\<open>int64\<close>: a 64-bit word, read as two's complement by \<open>sint\<close>. Every
  comparison of heights in the keeper is a signed one.
\<close>

type_synonym int64 = "64 word"

text \<open>
  Go's \<^verbatim>\<open>time.Time\<close>, as the instant it denotes, counted from the zero time
  (January 1, year 1, 00:00:00 UTC). \<^verbatim>\<open>IsZero\<close> holds of the zero instant only, and
  \<^verbatim>\<open>After\<close> and \<^verbatim>\<open>Before\<close> compare instants strictly.
\<close>

type_synonym Time = int

definition IsZero :: "Time \<Rightarrow> bool" where
  "IsZero t \<longleftrightarrow> t = 0"

definition After :: "Time \<Rightarrow> Time \<Rightarrow> bool" where
  "After t u \<longleftrightarrow> u < t"

definition Before :: "Time \<Rightarrow> Time \<Rightarrow> bool" where
  "Before t u \<longleftrightarrow> t < u"

text \<open>
  Modelled from the spec: the declaration of the struct \<^verbatim>\<open>Plan\<close> is not among the
  sources. Its fields are those of section 3 of the specification, with the names and
  types keeper.go and its test use them at (\<^verbatim>\<open>plan.Name\<close>, \<^verbatim>\<open>plan.Time\<close>,
  \<^verbatim>\<open>plan.Height\<close>, \<^verbatim>\<open>plan.Info\<close>).
\<close>

record Plan =
  Name :: string
  Time :: Time
  Height :: int64
  Info :: string

text \<open>The zero value \<^verbatim>\<open>Plan{}\<close>, which \<^verbatim>\<open>GetUpgradePlan\<close> returns when it finds none.\<close>

definition zeroPlan :: Plan where
  "zeroPlan = \<lparr>Name = [], Time = 0, Height = 0, Info = []\<rparr>"

text \<open>
  What the keeper reads of \<^verbatim>\<open>sdk.Context\<close>: \<^verbatim>\<open>ctx.BlockHeight()\<close> and
  \<^verbatim>\<open>ctx.BlockHeader().Time\<close>. The store, which the code reaches through
  \<^verbatim>\<open>ctx.KVStore(keeper.storeKey)\<close>, is passed on its own since it is mutated; the
  logger is a diagnostic sink and is left out.
\<close>

record Context =
  BlockHeight :: int64
  BlockTime :: Time

datatype sdk_Error = ErrUnknownRequest string

subsection \<open>The store\<close>

text \<open>
  The key-value store maps byte keys to byte values. The codec is an external library:
  the bytes \<^verbatim>\<open>cdc.MustMarshalBinaryBare(plan)\<close> are kept symbolic as \<open>Marshalled plan\<close>,
  which \<^verbatim>\<open>MustUnmarshalBinaryBare\<close> decodes to \<open>plan\<close> again; every other value is
  \<open>Raw\<close> bytes, which are not the encoding of a plan.
\<close>

datatype Bz = Marshalled Plan | Raw "byte list"

type_synonym KVStore = "byte list \<rightharpoonup> Bz"

definition PlanByte :: byte where
  "PlanByte = 0x0"

definition DoneByte :: byte where
  "DoneByte = 0x1"

definition PlanKey :: "byte list" where
  "PlanKey = [PlanByte]"

definition DoneHeightKey :: "string \<Rightarrow> byte list" where
  "DoneHeightKey name = [DoneByte] @ map of_char name"

text \<open>\<^verbatim>\<open>binary.BigEndian.PutUint64\<close> into a fresh slice of 8 bytes.\<close>

definition PutUint64 :: "64 word \<Rightarrow> byte list" where
  "PutUint64 v =
     [ucast (drop_bit 56 v), ucast (drop_bit 48 v), ucast (drop_bit 40 v),
      ucast (drop_bit 32 v), ucast (drop_bit 24 v), ucast (drop_bit 16 v),
      ucast (drop_bit 8 v), ucast v]"

text \<open>
  \<^verbatim>\<open>binary.BigEndian.Uint64\<close>, by which a done record is read back: it takes the
  first 8 bytes, and panics (here \<open>None\<close>) on a shorter slice.
\<close>

fun Uint64 :: "byte list \<Rightarrow> 64 word option" where
  "Uint64 (b0 # b1 # b2 # b3 # b4 # b5 # b6 # b7 # rest) =
     Some (push_bit 56 (ucast b0) OR push_bit 48 (ucast b1) OR push_bit 40 (ucast b2)
           OR push_bit 32 (ucast b3) OR push_bit 24 (ucast b4) OR push_bit 16 (ucast b5)
           OR push_bit 8 (ucast b6) OR ucast b7)"
| "Uint64 b = None"

subsection \<open>The keeper\<close>

text \<open>
  A panic of Go: \<^verbatim>\<open>panic(msg)\<close>, the panic of \<^verbatim>\<open>MustUnmarshalBinaryBare\<close> on
  bytes that are not an encoded plan, or the runtime's panic on the call of a nil
  function value.
\<close>

datatype Panic = Panic string | UnmarshalPanic | NilDereference

text \<open>
  Modelled from the spec: the declaration of the type \<^verbatim>\<open>Handler\<close> is not among the
  sources; the test registers a \<^verbatim>\<open>func(ctx sdk.Context, plan Plan)\<close>. A handler
  is a callback with the block context and the plan; its effect is on the state of the
  application outside the upgrade module's private namespace, of any type \<open>'a\<close>.
  A call of it returns, or it panics; either way it leaves an application state. The
  nil function value, which \<^verbatim>\<open>SetUpgradeHandler\<close> accepts like any other, is the
  handler \<open>nilHandler\<close> whose call panics at once.
\<close>

datatype 'a Ran = HandlerReturns 'a | HandlerPanics Panic 'a

type_synonym 'a Handler = "Context \<Rightarrow> Plan \<Rightarrow> 'a \<Rightarrow> 'a Ran"

definition nilHandler :: "'a Handler" where
  "nilHandler ctx plan a = HandlerPanics NilDereference a"

text \<open>
  The struct \<^verbatim>\<open>keeper\<close>, without the store key and the codec (the store is passed
  explicitly, the codec is symbolic).
\<close>

record 'a keeper =
  upgradeHandlers :: "string \<rightharpoonup> 'a Handler"
  haveCache :: bool

definition NewKeeper :: "'a keeper" where
  "NewKeeper = \<lparr>upgradeHandlers = Map.empty, haveCache = False\<rparr>"

definition SetUpgradeHandler :: "'a keeper \<Rightarrow> string \<Rightarrow> 'a Handler \<Rightarrow> 'a keeper" where
  "SetUpgradeHandler k name upgradeHandler =
     k\<lparr>upgradeHandlers := (upgradeHandlers k)(name \<mapsto> upgradeHandler)\<rparr>"

definition ValidateBasic :: "Plan \<Rightarrow> sdk_Error option" where
  "ValidateBasic plan =
     (if length (Name plan) = 0 then Some (ErrUnknownRequest ''Name cannot be empty'')
      else None)"

text \<open>
  \<^verbatim>\<open>ScheduleUpgrade\<close> returns its error (\<open>None\<close> for \<^verbatim>\<open>nil\<close>) together with the
  keeper and the store as it leaves them. \<open>early\<close> is the outcome of lines 88 to 97,
  the checks on time and height, with the nesting of the source.
\<close>

definition ScheduleUpgrade ::
  "'a keeper \<Rightarrow> Context \<Rightarrow> Plan \<Rightarrow> KVStore \<Rightarrow> sdk_Error option \<times> 'a keeper \<times> KVStore" where
  "ScheduleUpgrade k ctx plan s =
     (case ValidateBasic plan of
        Some err \<Rightarrow> (Some err, k, s)
      | None \<Rightarrow>
          let early =
            (if \<not> IsZero (Time plan) then
               (if \<not> After (Time plan) (BlockTime ctx)
                then Some (ErrUnknownRequest ''Upgrade cannot be scheduled in the past'')
                else if Height plan \<noteq> 0
                then Some (ErrUnknownRequest ''Only one of Time or Height should be specified'')
                else None)
             else if sint (Height plan) \<le> sint (BlockHeight ctx)
             then Some (ErrUnknownRequest ''Upgrade cannot be scheduled in the past'')
             else None)
          in
            (case early of
               Some err \<Rightarrow> (Some err, k, s)
             | None \<Rightarrow>
                 if s (DoneHeightKey (Name plan)) \<noteq> None
                 then (Some (ErrUnknownRequest
                         (''Upgrade with name '' @ Name plan @ '' has already been completed'')),
                       k, s)
                 else (None, k\<lparr>haveCache := False\<rparr>, s(PlanKey \<mapsto> Marshalled plan))))"

definition ClearUpgradePlan :: "'a keeper \<Rightarrow> KVStore \<Rightarrow> 'a keeper \<times> KVStore" where
  "ClearUpgradePlan k s = (k\<lparr>haveCache := False\<rparr>, s(PlanKey := None))"

definition GetUpgradePlan :: "KVStore \<Rightarrow> Panic + Plan \<times> bool" where
  "GetUpgradePlan s =
     (case s PlanKey of
        None \<Rightarrow> Inr (zeroPlan, False)
      | Some (Marshalled plan) \<Rightarrow> Inr (plan, True)
      | Some (Raw bz) \<Rightarrow> Inl UnmarshalPanic)"

definition setDone :: "Context \<Rightarrow> string \<Rightarrow> KVStore \<Rightarrow> KVStore" where
  "setDone ctx name s = s(DoneHeightKey name \<mapsto> Raw (PutUint64 (BlockHeight ctx)))"

subsection \<open>Evaluating a block\<close>

text \<open>
  The state of the chain that a block evaluation works on: the upgrade module's store,
  the state of the rest of the application (what a handler migrates), and the record of
  the handler invocations so far, in order, each with the context and plan it was given
  and with whether it returned (\<open>True\<close>) or panicked (\<open>False\<close>).
\<close>

record 'a Chain =
  kvstore :: KVStore
  appState :: 'a
  calls :: "(Context \<times> Plan \<times> bool) list"

text \<open>
  \<^verbatim>\<open>BeginBlocker\<close> either returns or panics; both outcomes carry the keeper and the
  chain state as they are at that moment. Its argument \<^verbatim>\<open>req\<close> is not used by the code.
  A call \<^verbatim>\<open>handler(ctx, plan)\<close> applies the handler to the application state and is
  recorded in \<open>calls\<close>. When the handler panics, so does \<^verbatim>\<open>BeginBlocker\<close>, before
  \<^verbatim>\<open>ClearUpgradePlan\<close> and \<^verbatim>\<open>setDone\<close> are reached.
\<close>

datatype 'a Exit = Returned "'a keeper" "'a Chain" | Panicked Panic "'a keeper" "'a Chain"

definition BeginBlocker :: "'a keeper \<Rightarrow> Context \<Rightarrow> 'a Chain \<Rightarrow> 'a Exit" where
  "BeginBlocker k ctx c =
     (let blockTime = BlockTime ctx;
          blockHeight = BlockHeight ctx
      in case GetUpgradePlan (kvstore c) of
           Inl p \<Rightarrow> Panicked p k c
         | Inr (plan, found) \<Rightarrow>
             if \<not> found then Returned k c
             else
               let upgradeTime = Time plan;
                   upgradeHeight = Height plan
               in if (\<not> IsZero upgradeTime \<and> \<not> Before blockTime upgradeTime)
                     \<or> (0 < sint upgradeHeight \<and> sint upgradeHeight \<le> sint blockHeight)
                  then (case upgradeHandlers k (Name plan) of
                          Some handler \<Rightarrow>
                            (case handler ctx plan (appState c) of
                               HandlerPanics p a \<Rightarrow>
                                 Panicked p k
                                   (c\<lparr>appState := a, calls := calls c @ [(ctx, plan, False)]\<rparr>)
                             | HandlerReturns a \<Rightarrow>
                                 let c1 = c\<lparr>appState := a,
                                            calls := calls c @ [(ctx, plan, True)]\<rparr>;
                                     (k2, s2) = ClearUpgradePlan k (kvstore c1);
                                     s3 = setDone ctx (Name plan) s2
                                 in Returned k2 (c1\<lparr>kvstore := s3\<rparr>))
                        | None \<Rightarrow> Panicked (Panic ''UPGRADE REQUIRED!'') k c)
                  else (case upgradeHandlers k (Name plan) of
                          Some handler \<Rightarrow> Panicked (Panic ''BINARY UPDATED BEFORE TRIGGER!'') k c
                        | None \<Rightarrow> Returned k c))"

subsection \<open>The specification's vocabulary\<close>

text \<open>
  The error kinds of the specification. The code returns \<^verbatim>\<open>sdk.ErrUnknownRequest\<close>
  for each of them; they differ in the message.
\<close>

definition InvalidPlan :: sdk_Error where
  "InvalidPlan = ErrUnknownRequest ''Name cannot be empty''"

definition InvalidSchedule :: sdk_Error where
  "InvalidSchedule = ErrUnknownRequest ''Only one of Time or Height should be specified''"

definition ScheduleInPast :: sdk_Error where
  "ScheduleInPast = ErrUnknownRequest ''Upgrade cannot be scheduled in the past''"

definition AlreadyCompleted :: "string \<Rightarrow> sdk_Error" where
  "AlreadyCompleted name =
     ErrUnknownRequest (''Upgrade with name '' @ name @ '' has already been completed'')"

text \<open>
  A field of a plan is set when it is not the zero value of its type, as
  \<^verbatim>\<open>ScheduleUpgrade\<close> tests it (\<^verbatim>\<open>!plan.Time.IsZero()\<close>, \<^verbatim>\<open>plan.Height != 0\<close>).
\<close>

definition timeSet :: "Plan \<Rightarrow> bool" where
  "timeSet plan \<longleftrightarrow> \<not> IsZero (Time plan)"

definition heightSet :: "Plan \<Rightarrow> bool" where
  "heightSet plan \<longleftrightarrow> Height plan \<noteq> 0"

definition exactlyOneSet :: "Plan \<Rightarrow> bool" where
  "exactlyOneSet plan \<longleftrightarrow> (timeSet plan \<and> \<not> heightSet plan) \<or> (heightSet plan \<and> \<not> timeSet plan)"

text \<open>
  The target of a plan with exactly one of time and height set is strictly greater than
  the current block's time, respectively height.
\<close>

definition targetInFuture :: "Context \<Rightarrow> Plan \<Rightarrow> bool" where
  "targetInFuture ctx plan \<longleftrightarrow>
     (if timeSet plan then BlockTime ctx < Time plan
      else sint (BlockHeight ctx) < sint (Height plan))"

text \<open>
  The plan passes the checks that \<^verbatim>\<open>ScheduleUpgrade\<close> makes before it looks for a
  done record: the name is not empty; a time that is set is strictly after the block
  time and comes without a height; and with no time set, the height is strictly above
  the block height.
\<close>

definition passesChecks :: "Context \<Rightarrow> Plan \<Rightarrow> bool" where
  "passesChecks ctx plan \<longleftrightarrow>
     Name plan \<noteq> []
     \<and> (if timeSet plan then BlockTime ctx < Time plan \<and> \<not> heightSet plan
        else sint (BlockHeight ctx) < sint (Height plan))"

text \<open>
  The trigger decision in the specification's words: the time is set and the block time
  has reached it, or the height is set (positive) and the block height has reached it.
\<close>

definition triggered :: "Context \<Rightarrow> Plan \<Rightarrow> bool" where
  "triggered ctx plan \<longleftrightarrow>
     (timeSet plan \<and> Time plan \<le> BlockTime ctx)
     \<or> (0 < sint (Height plan) \<and> sint (Height plan) \<le> sint (BlockHeight ctx))"

text \<open>The error, the keeper and the store that \<^verbatim>\<open>ScheduleUpgrade\<close> leaves.\<close>

definition errorOf :: "sdk_Error option \<times> 'a keeper \<times> KVStore \<Rightarrow> sdk_Error option" where
  "errorOf r = fst r"

definition keeperOf :: "sdk_Error option \<times> 'a keeper \<times> KVStore \<Rightarrow> 'a keeper" where
  "keeperOf r = fst (snd r)"

definition storeOf :: "sdk_Error option \<times> 'a keeper \<times> KVStore \<Rightarrow> KVStore" where
  "storeOf r = snd (snd r)"

subsection \<open>Histories\<close>

text \<open>
  The operations on a keeper and its chain: the three mutating methods of the interface
  \<^verbatim>\<open>Keeper\<close>, the evaluation of a block, and the restart of the process, which
  constructs the keeper anew over the store that persists. (\<^verbatim>\<open>GetUpgradePlan\<close> only
  reads.)
\<close>

datatype 'a Op =
    Schedule Context Plan
  | Clear
  | SetHandler string "'a Handler"
  | Block Context
  | Restart

text \<open>
  One operation. The error of \<^verbatim>\<open>ScheduleUpgrade\<close> goes back to the caller and is not
  part of the state. A block evaluation that panics leaves the keeper and the chain as
  they are at the panic; the history goes on from there, as the test suite does after
  \<^verbatim>\<open>s.Require().Panics\<close>.
\<close>

fun step :: "'a Op \<Rightarrow> 'a keeper \<times> 'a Chain \<Rightarrow> 'a keeper \<times> 'a Chain" where
  "step (Schedule ctx plan) (k, c) =
     (let r = ScheduleUpgrade k ctx plan (kvstore c) in (keeperOf r, c\<lparr>kvstore := storeOf r\<rparr>))"
| "step Clear (k, c) =
     (let (k', s') = ClearUpgradePlan k (kvstore c) in (k', c\<lparr>kvstore := s'\<rparr>))"
| "step (SetHandler name h) (k, c) = (SetUpgradeHandler k name h, c)"
| "step (Block ctx) (k, c) =
     (case BeginBlocker k ctx c of
        Returned k' c' \<Rightarrow> (k', c')
      | Panicked p k' c' \<Rightarrow> (k', c'))"
| "step Restart (k, c) = (NewKeeper, c)"

fun run :: "'a Op list \<Rightarrow> 'a keeper \<times> 'a Chain \<Rightarrow> 'a keeper \<times> 'a Chain" where
  "run [] st = st"
| "run (op # ops) st = run ops (step op st)"

text \<open>The start of a chain: a new keeper, an empty store, no handler invoked yet.\<close>

definition genesis :: "'a \<Rightarrow> 'a keeper \<times> 'a Chain" where
  "genesis a = (NewKeeper, \<lparr>kvstore = Map.empty, appState = a, calls = []\<rparr>)"

text \<open>
  The invocations of the handler registered for a name, in order, and how many of them
  returned.
\<close>

definition invocations ::
  "string \<Rightarrow> 'a keeper \<times> 'a Chain \<Rightarrow> (Context \<times> Plan \<times> bool) list" where
  "invocations name st = filter (\<lambda>(ctx, plan, returned). Name plan = name) (calls (snd st))"

definition applications :: "string \<Rightarrow> 'a keeper \<times> 'a Chain \<Rightarrow> nat" where
  "applications name st =
     length (filter (\<lambda>(ctx, plan, returned). returned) (invocations name st))"

text \<open>
  A record of invocations in which an invocation that returned is the last one of its
  name.
\<close>

fun settled :: "(Context \<times> Plan \<times> bool) list \<Rightarrow> bool" where
  "settled [] = True"
| "settled ((ctx, plan, returned) # es) =
     ((returned \<longrightarrow> list_all (\<lambda>(ctx', plan', returned'). Name plan' \<noteq> Name plan) es)
      \<and> settled es)"

text \<open>
  The invariant behind the single application of a name: every name whose handler has
  returned has a done record, the record of invocations is settled, and the name of a
  pending plan has no done record.
\<close>

definition once :: "'a Chain \<Rightarrow> bool" where
  "once c \<longleftrightarrow>
     (\<forall>e \<in> set (calls c). snd (snd e)
         \<longrightarrow> kvstore c (DoneHeightKey (Name (fst (snd e)))) \<noteq> None)
     \<and> settled (calls c)
     \<and> (\<forall>plan. kvstore c PlanKey = Some (Marshalled plan)
           \<longrightarrow> kvstore c (DoneHeightKey (Name plan)) = None)"

subsection \<open>The values of the test suite\<close>

text \<open>
  The context of \<^verbatim>\<open>SetupTest\<close> (height 10, at some time), the later context of
  \<^verbatim>\<open>VerifyDoUpgrade\<close> (height 11, later), the plans the tests schedule, and the
  handler \<^verbatim>\<open>func(ctx sdk.Context, plan Plan) {}\<close>.
\<close>

definition testCtx :: Context where
  "testCtx = \<lparr>BlockHeight = 10, BlockTime = 1000\<rparr>"

definition newCtx :: Context where
  "newCtx = \<lparr>BlockHeight = 11, BlockTime = 2000\<rparr>"

definition heightPlan :: Plan where
  "heightPlan = \<lparr>Name = ''test'', Time = 0, Height = 11, Info = []\<rparr>"

definition timePlan :: Plan where
  "timePlan = \<lparr>Name = ''test'', Time = 1500, Height = 0, Info = []\<rparr>"

definition noHandler :: "unit Handler" where
  "noHandler ctx plan a = HandlerReturns a"

text \<open>A handler that panics: \<^verbatim>\<open>func(ctx sdk.Context, plan Plan) { panic("boom") }\<close>.\<close>

definition panickingHandler :: "unit Handler" where
  "panickingHandler ctx plan a = HandlerPanics (Panic ''boom'') a"

definition testKeeper :: "unit keeper" where
  "testKeeper = NewKeeper"

definition emptyChain :: "unit Chain" where
  "emptyChain = \<lparr>kvstore = Map.empty, appState = (), calls = []\<rparr>"

definition pendingChain :: "Plan \<Rightarrow> unit Chain" where
  "pendingChain plan = \<lparr>kvstore = [PlanKey \<mapsto> Marshalled plan], appState = (), calls = []\<rparr>"

text \<open>
  \<^verbatim>\<open>TestCantApplySameUpgradeTwice\<close>: schedule, hit the upgrade without a handler,
  register it, apply, and try to schedule the same name again.
\<close>

definition applyTwice :: "unit Op list" where
  "applyTwice =
     [Schedule testCtx timePlan, Block newCtx, SetHandler ''test'' noHandler, Block newCtx,
      Schedule testCtx timePlan, Block newCtx]"

text \<open>
  The same upgrade with a handler that panics: the block is evaluated twice, and then
  once more with a handler that returns.
\<close>

definition panicTwice :: "unit Op list" where
  "panicTwice =
     [Schedule testCtx timePlan, SetHandler ''test'' panickingHandler, Block newCtx,
      Block newCtx]"

definition panicThenApply :: "unit Op list" where
  "panicThenApply = panicTwice @ [SetHandler ''test'' noHandler, Block newCtx, Block newCtx]"

section \<open>Properties\<close>

subsection \<open>Keys\<close>

lemma PlanKey_neq_DoneHeightKey [simp]:
  "PlanKey \<noteq> DoneHeightKey name" "DoneHeightKey name \<noteq> PlanKey"
  by (simp_all add: PlanKey_def DoneHeightKey_def PlanByte_def DoneByte_def)


lemma byte_at:
  fixes v :: "64 word"
  shows "bit (push_bit m (ucast (ucast (drop_bit m v) :: 8 word) :: 64 word)) n
         \<longleftrightarrow> m \<le> n \<and> n < m + 8 \<and> bit v n"
  by (auto simp: bit_simps dest: bit_imp_le_length)

lemma byte_at0:
  fixes v :: "64 word"
  shows "bit (ucast (ucast v :: 8 word) :: 64 word) n \<longleftrightarrow> n < 8 \<and> bit v n"
  by (auto simp: bit_simps dest: bit_imp_le_length)

text \<open>Reading a done record back gives the height that was written.\<close>

lemma Uint64_PutUint64: "Uint64 (PutUint64 v) = Some v"
proof -
  have "push_bit 56 (ucast (ucast (drop_bit 56 v) :: 8 word)) OR
        push_bit 48 (ucast (ucast (drop_bit 48 v) :: 8 word)) OR
        push_bit 40 (ucast (ucast (drop_bit 40 v) :: 8 word)) OR
        push_bit 32 (ucast (ucast (drop_bit 32 v) :: 8 word)) OR
        push_bit 24 (ucast (ucast (drop_bit 24 v) :: 8 word)) OR
        push_bit 16 (ucast (ucast (drop_bit 16 v) :: 8 word)) OR
        push_bit 8 (ucast (ucast (drop_bit 8 v) :: 8 word)) OR
        ucast (ucast v :: 8 word) = v" (is "?w = v")
  proof (rule bit_word_eqI)
    fix n assume "n < LENGTH(64)"
    then have n: "n < 64" by simp
    have "bit ?w n \<longleftrightarrow>
       (56 \<le> n \<and> n < 56 + 8 \<and> bit v n) \<or> (48 \<le> n \<and> n < 48 + 8 \<and> bit v n)
       \<or> (40 \<le> n \<and> n < 40 + 8 \<and> bit v n) \<or> (32 \<le> n \<and> n < 32 + 8 \<and> bit v n)
       \<or> (24 \<le> n \<and> n < 24 + 8 \<and> bit v n) \<or> (16 \<le> n \<and> n < 16 + 8 \<and> bit v n)
       \<or> (8 \<le> n \<and> n < 8 + 8 \<and> bit v n) \<or> (n < 8 \<and> bit v n)"
      by (simp only: bit_or_iff byte_at byte_at0)
    also have "\<dots> \<longleftrightarrow> bit v n" using n by auto
    finally show "bit ?w n \<longleftrightarrow> bit v n" .
  qed
  then show ?thesis by (simp add: PutUint64_def)
qed

subsection \<open>Block evaluation\<close>

lemma pending_iff:
  "GetUpgradePlan s = Inr (plan, True) \<longleftrightarrow> s PlanKey = Some (Marshalled plan)"
  by (auto simp: GetUpgradePlan_def split: option.splits Bz.splits)

text \<open>
  The evaluation of a block with a pending plan, by the specification's four cases; in
  the first, the handler returns or panics.
\<close>

lemma BeginBlocker_pending:
  assumes "kvstore c PlanKey = Some (Marshalled plan)"
  shows "BeginBlocker k ctx c =
     (if triggered ctx plan
      then (case upgradeHandlers k (Name plan) of
              Some handler \<Rightarrow>
                (case handler ctx plan (appState c) of
                   HandlerPanics p a \<Rightarrow>
                     Panicked p k (c\<lparr>appState := a, calls := calls c @ [(ctx, plan, False)]\<rparr>)
                 | HandlerReturns a \<Rightarrow>
                     Returned (k\<lparr>haveCache := False\<rparr>)
                       (c\<lparr>appState := a,
                          calls := calls c @ [(ctx, plan, True)],
                          kvstore := (kvstore c)(PlanKey := None,
                            DoneHeightKey (Name plan) \<mapsto> Raw (PutUint64 (BlockHeight ctx)))\<rparr>))
            | None \<Rightarrow> Panicked (Panic ''UPGRADE REQUIRED!'') k c)
      else (case upgradeHandlers k (Name plan) of
              Some handler \<Rightarrow> Panicked (Panic ''BINARY UPDATED BEFORE TRIGGER!'') k c
            | None \<Rightarrow> Returned k c))"
  using assms
  by (simp add: BeginBlocker_def GetUpgradePlan_def triggered_def timeSet_def IsZero_def
        Before_def ClearUpgradePlan_def setDone_def Let_def not_less
        split: option.splits Ran.splits)

lemma pendingChain_pending:
  "GetUpgradePlan (kvstore (pendingChain plan)) = Inr (plan, True)"
  by (simp add: GetUpgradePlan_def pendingChain_def)

lemma heightPlan_triggered: "triggered newCtx heightPlan" "\<not> triggered testCtx heightPlan"
  by (simp_all add: triggered_def newCtx_def testCtx_def heightPlan_def timeSet_def IsZero_def)

lemma testKeeper_handlers:
  "upgradeHandlers testKeeper name = None"
  "upgradeHandlers (SetUpgradeHandler testKeeper name h) name = Some h"
  by (simp_all add: testKeeper_def NewKeeper_def SetUpgradeHandler_def)

text \<open>
  C9. A block evaluation in a state with no pending plan returns, and leaves the keeper
  and the whole chain state (the store with its plan slot and done records, the
  application state, the record of handler invocations) as they were: it neither halts
  nor invokes a handler nor writes to the store.
\<close>

theorem BeginBlocker_no_plan:
  assumes "kvstore c PlanKey = None"
  shows "BeginBlocker k ctx c = Returned k c"
  using assms by (simp add: BeginBlocker_def GetUpgradePlan_def)

theorem BeginBlocker_no_plan_witness:
  "kvstore emptyChain PlanKey = None
   \<and> BeginBlocker testKeeper testCtx emptyChain = Returned testKeeper emptyChain"
proof -
  have h: "kvstore emptyChain PlanKey = None"
    by (simp add: emptyChain_def)
  from BeginBlocker_no_plan [OF h] h show ?thesis by simp
qed

text \<open>
  C3. With a plan pending, the block evaluation takes the branch of a triggered plan
  (it panics for want of a handler, or it calls the handler, which panics or returns)
  exactly when the plan's time is set and the block time has reached it, or the plan's
  height is positive and the block height has reached it.
\<close>

theorem BeginBlocker_trigger_decision:
  assumes "GetUpgradePlan (kvstore c) = Inr (plan, True)"
  shows "(BeginBlocker k ctx c = Panicked (Panic ''UPGRADE REQUIRED!'') k c
          \<or> (\<exists>p k' c'. BeginBlocker k ctx c = Panicked p k' c'
                \<and> calls c' = calls c @ [(ctx, plan, False)])
          \<or> (\<exists>k' c'. BeginBlocker k ctx c = Returned k' c'
                \<and> calls c' = calls c @ [(ctx, plan, True)]))
         \<longleftrightarrow> triggered ctx plan"
proof -
  from assms have pending: "kvstore c PlanKey = Some (Marshalled plan)"
    by (simp add: pending_iff)
  show ?thesis
  proof (cases "upgradeHandlers k (Name plan)")
    case None
    then show ?thesis
      unfolding BeginBlocker_pending [OF pending] by simp
  next
    case (Some handler)
    then show ?thesis
      unfolding BeginBlocker_pending [OF pending]
      by (cases "handler ctx plan (appState c)") simp_all
  qed
qed

theorem BeginBlocker_trigger_decision_witness:
  "GetUpgradePlan (kvstore (pendingChain heightPlan)) = Inr (heightPlan, True)
   \<and> triggered newCtx heightPlan
   \<and> (BeginBlocker testKeeper newCtx (pendingChain heightPlan)
        = Panicked (Panic ''UPGRADE REQUIRED!'') testKeeper (pendingChain heightPlan)
      \<or> (\<exists>p k' c'. BeginBlocker testKeeper newCtx (pendingChain heightPlan) = Panicked p k' c'
            \<and> calls c' = calls (pendingChain heightPlan) @ [(newCtx, heightPlan, False)])
      \<or> (\<exists>k' c'. BeginBlocker testKeeper newCtx (pendingChain heightPlan) = Returned k' c'
            \<and> calls c' = calls (pendingChain heightPlan) @ [(newCtx, heightPlan, True)]))"
  using BeginBlocker_trigger_decision [OF pendingChain_pending, of testKeeper newCtx heightPlan]
    pendingChain_pending [of heightPlan] heightPlan_triggered(1)
  by simp

lemma pendingChain_fields:
  "kvstore (pendingChain plan) PlanKey = Some (Marshalled plan)"
  "kvstore (pendingChain plan) (DoneHeightKey name) = None"
  "calls (pendingChain plan) = []" "appState (pendingChain plan) = ()"
  by (simp_all add: pendingChain_def)

text \<open>
  C4, as stated for every registered handler, fails for one that panics, and for the
  nil function value: the block evaluation panics at the call, and the plan is still
  pending and has no done record.
\<close>

theorem BeginBlocker_applies_counterexample:
  "GetUpgradePlan (kvstore (pendingChain heightPlan)) = Inr (heightPlan, True)
   \<and> triggered newCtx heightPlan
   \<and> upgradeHandlers (SetUpgradeHandler testKeeper ''test'' panickingHandler) (Name heightPlan)
       = Some panickingHandler
   \<and> BeginBlocker (SetUpgradeHandler testKeeper ''test'' panickingHandler) newCtx
         (pendingChain heightPlan)
       = Panicked (Panic ''boom'') (SetUpgradeHandler testKeeper ''test'' panickingHandler)
           ((pendingChain heightPlan)\<lparr>calls := [(newCtx, heightPlan, False)]\<rparr>)
   \<and> GetUpgradePlan (kvstore ((pendingChain heightPlan)\<lparr>calls := [(newCtx, heightPlan, False)]\<rparr>))
       = Inr (heightPlan, True)
   \<and> kvstore ((pendingChain heightPlan)\<lparr>calls := [(newCtx, heightPlan, False)]\<rparr>)
         (DoneHeightKey ''test'') = None
   \<and> upgradeHandlers (SetUpgradeHandler testKeeper ''test'' nilHandler) (Name heightPlan)
       = Some nilHandler
   \<and> BeginBlocker (SetUpgradeHandler testKeeper ''test'' nilHandler) newCtx
         (pendingChain heightPlan)
       = Panicked NilDereference (SetUpgradeHandler testKeeper ''test'' nilHandler)
           ((pendingChain heightPlan)\<lparr>calls := [(newCtx, heightPlan, False)]\<rparr>)"
proof -
  have n: "Name heightPlan = ''test''"
    by (simp add: heightPlan_def)
  have "BeginBlocker (SetUpgradeHandler testKeeper ''test'' panickingHandler) newCtx
         (pendingChain heightPlan)
       = Panicked (Panic ''boom'') (SetUpgradeHandler testKeeper ''test'' panickingHandler)
           ((pendingChain heightPlan)\<lparr>calls := [(newCtx, heightPlan, False)]\<rparr>)"
    unfolding BeginBlocker_pending [OF pendingChain_fields(1)]
    by (simp add: heightPlan_triggered n testKeeper_handlers panickingHandler_def
          pendingChain_fields)
  moreover have "BeginBlocker (SetUpgradeHandler testKeeper ''test'' nilHandler) newCtx
         (pendingChain heightPlan)
       = Panicked NilDereference (SetUpgradeHandler testKeeper ''test'' nilHandler)
           ((pendingChain heightPlan)\<lparr>calls := [(newCtx, heightPlan, False)]\<rparr>)"
    unfolding BeginBlocker_pending [OF pendingChain_fields(1)]
    by (simp add: heightPlan_triggered n testKeeper_handlers nilHandler_def
          pendingChain_fields)
  ultimately show ?thesis
    by (simp add: pendingChain_pending heightPlan_triggered n testKeeper_handlers
          GetUpgradePlan_def pendingChain_fields)
qed

text \<open>
  C4, amended. When the pending plan is triggered, a handler is registered for its name
  and the handler's call returns, the block evaluation returns (no halt); the handler
  has been invoked once, with the block context and the plan; the plan is cleared, so
  that \<^verbatim>\<open>GetUpgradePlan\<close> reports none; and the done record of the plan's name holds
  the height of the current block, which is what reading it back gives. No other key of
  the store and no handler registration is changed.
\<close>

theorem BeginBlocker_applies:
  assumes "GetUpgradePlan (kvstore c) = Inr (plan, True)"
    and "triggered ctx plan"
    and "upgradeHandlers k (Name plan) = Some handler"
    and "handler ctx plan (appState c) = HandlerReturns a"
  shows "\<exists>k' c'. BeginBlocker k ctx c = Returned k' c'
           \<and> calls c' = calls c @ [(ctx, plan, True)]
           \<and> appState c' = a
           \<and> GetUpgradePlan (kvstore c') = Inr (zeroPlan, False)
           \<and> kvstore c' (DoneHeightKey (Name plan)) = Some (Raw (PutUint64 (BlockHeight ctx)))
           \<and> Uint64 (PutUint64 (BlockHeight ctx)) = Some (BlockHeight ctx)
           \<and> (\<forall>key. key \<noteq> PlanKey \<and> key \<noteq> DoneHeightKey (Name plan)
                 \<longrightarrow> kvstore c' key = kvstore c key)
           \<and> upgradeHandlers k' = upgradeHandlers k"
proof -
  from assms(1) have pending: "kvstore c PlanKey = Some (Marshalled plan)"
    by (simp add: pending_iff)
  show ?thesis
    unfolding BeginBlocker_pending [OF pending]
    using assms(2,3,4) by (simp add: GetUpgradePlan_def Uint64_PutUint64)
qed

theorem BeginBlocker_applies_witness:
  "GetUpgradePlan (kvstore (pendingChain heightPlan)) = Inr (heightPlan, True)
   \<and> triggered newCtx heightPlan
   \<and> upgradeHandlers (SetUpgradeHandler testKeeper ''test'' noHandler) (Name heightPlan)
       = Some noHandler
   \<and> noHandler newCtx heightPlan (appState (pendingChain heightPlan)) = HandlerReturns ()
   \<and> (\<exists>k' c'. BeginBlocker (SetUpgradeHandler testKeeper ''test'' noHandler) newCtx
                 (pendingChain heightPlan) = Returned k' c'
         \<and> calls c' = [(newCtx, heightPlan, True)]
         \<and> GetUpgradePlan (kvstore c') = Inr (zeroPlan, False)
         \<and> kvstore c' (DoneHeightKey ''test'') = Some (Raw (PutUint64 11)))"
proof -
  have h: "upgradeHandlers (SetUpgradeHandler testKeeper ''test'' noHandler) (Name heightPlan)
             = Some noHandler"
    by (simp add: heightPlan_def testKeeper_handlers)
  have r: "noHandler newCtx heightPlan (appState (pendingChain heightPlan)) = HandlerReturns ()"
    by (simp add: noHandler_def)
  have n: "Name heightPlan = ''test''" "BlockHeight newCtx = 11" "calls (pendingChain heightPlan) = []"
    by (simp_all add: heightPlan_def newCtx_def pendingChain_def)
  from BeginBlocker_applies [OF pendingChain_pending heightPlan_triggered(1) h r]
  obtain k' c' where
    "BeginBlocker (SetUpgradeHandler testKeeper ''test'' noHandler) newCtx
       (pendingChain heightPlan) = Returned k' c'"
    "calls c' = calls (pendingChain heightPlan) @ [(newCtx, heightPlan, True)]"
    "GetUpgradePlan (kvstore c') = Inr (zeroPlan, False)"
    "kvstore c' (DoneHeightKey (Name heightPlan)) = Some (Raw (PutUint64 (BlockHeight newCtx)))"
    by blast
  with n have "\<exists>k' c'. BeginBlocker (SetUpgradeHandler testKeeper ''test'' noHandler) newCtx
                 (pendingChain heightPlan) = Returned k' c'
         \<and> calls c' = [(newCtx, heightPlan, True)]
         \<and> GetUpgradePlan (kvstore c') = Inr (zeroPlan, False)
         \<and> kvstore c' (DoneHeightKey ''test'') = Some (Raw (PutUint64 11))"
    by simp
  with pendingChain_pending [of heightPlan] heightPlan_triggered(1) h r show ?thesis
    by blast
qed

text \<open>
  C5. When the pending plan is triggered and no handler is registered for its name, the
  block evaluation panics, and at the panic the keeper and the chain state are the ones
  it started from: the pending plan and the done records are untouched, and no handler
  has been invoked.
\<close>

theorem BeginBlocker_upgrade_required:
  assumes "GetUpgradePlan (kvstore c) = Inr (plan, True)"
    and "triggered ctx plan"
    and "upgradeHandlers k (Name plan) = None"
  shows "BeginBlocker k ctx c = Panicked (Panic ''UPGRADE REQUIRED!'') k c"
proof -
  from assms(1) have pending: "kvstore c PlanKey = Some (Marshalled plan)"
    by (simp add: pending_iff)
  show ?thesis
    unfolding BeginBlocker_pending [OF pending]
    using assms(2,3) by simp
qed

theorem BeginBlocker_upgrade_required_witness:
  "GetUpgradePlan (kvstore (pendingChain heightPlan)) = Inr (heightPlan, True)
   \<and> triggered newCtx heightPlan
   \<and> upgradeHandlers testKeeper (Name heightPlan) = None
   \<and> BeginBlocker testKeeper newCtx (pendingChain heightPlan)
       = Panicked (Panic ''UPGRADE REQUIRED!'') testKeeper (pendingChain heightPlan)"
  using BeginBlocker_upgrade_required
      [OF pendingChain_pending heightPlan_triggered(1) testKeeper_handlers(1)]
    pendingChain_pending [of heightPlan] heightPlan_triggered(1)
    testKeeper_handlers(1) [of "Name heightPlan"]
  by simp

text \<open>
  C6. When a plan is pending and not triggered, the block evaluation panics if a handler
  is registered for the plan's name, and otherwise returns with the keeper and the chain
  state (the pending plan with them) unchanged.
\<close>

theorem BeginBlocker_not_triggered:
  assumes "GetUpgradePlan (kvstore c) = Inr (plan, True)"
    and "\<not> triggered ctx plan"
  shows "BeginBlocker k ctx c =
           (if upgradeHandlers k (Name plan) \<noteq> None
            then Panicked (Panic ''BINARY UPDATED BEFORE TRIGGER!'') k c
            else Returned k c)"
proof -
  from assms(1) have pending: "kvstore c PlanKey = Some (Marshalled plan)"
    by (simp add: pending_iff)
  show ?thesis
    unfolding BeginBlocker_pending [OF pending]
    using assms(2) by (cases "upgradeHandlers k (Name plan)") simp_all
qed

theorem BeginBlocker_not_triggered_witness:
  "GetUpgradePlan (kvstore (pendingChain heightPlan)) = Inr (heightPlan, True)
   \<and> \<not> triggered testCtx heightPlan
   \<and> BeginBlocker testKeeper testCtx (pendingChain heightPlan)
       = Returned testKeeper (pendingChain heightPlan)
   \<and> BeginBlocker (SetUpgradeHandler testKeeper ''test'' noHandler) testCtx
         (pendingChain heightPlan)
       = Panicked (Panic ''BINARY UPDATED BEFORE TRIGGER!'')
           (SetUpgradeHandler testKeeper ''test'' noHandler) (pendingChain heightPlan)"
proof -
  have n: "Name heightPlan = ''test''"
    by (simp add: heightPlan_def)
  from BeginBlocker_not_triggered [OF pendingChain_pending heightPlan_triggered(2), of testKeeper]
    BeginBlocker_not_triggered [OF pendingChain_pending heightPlan_triggered(2),
      of "SetUpgradeHandler testKeeper ''test'' noHandler"]
    pendingChain_pending [of heightPlan] heightPlan_triggered(2)
  show ?thesis
    by (simp add: n testKeeper_handlers)
qed

subsection \<open>Scheduling\<close>

lemma error_kinds_distinct [simp]:
  "InvalidPlan \<noteq> InvalidSchedule" "InvalidPlan \<noteq> ScheduleInPast"
  "InvalidPlan \<noteq> AlreadyCompleted name"
  "InvalidSchedule \<noteq> InvalidPlan" "InvalidSchedule \<noteq> ScheduleInPast"
  "InvalidSchedule \<noteq> AlreadyCompleted name"
  "ScheduleInPast \<noteq> InvalidPlan" "ScheduleInPast \<noteq> InvalidSchedule"
  "ScheduleInPast \<noteq> AlreadyCompleted name"
  "AlreadyCompleted name \<noteq> InvalidPlan" "AlreadyCompleted name \<noteq> InvalidSchedule"
  "AlreadyCompleted name \<noteq> ScheduleInPast"
  by (simp_all add: InvalidPlan_def InvalidSchedule_def ScheduleInPast_def AlreadyCompleted_def)

text \<open>
  \<^verbatim>\<open>ScheduleUpgrade\<close> as the sequence of its returns, in the order the code reaches
  them, with the errors named as the specification names them.
\<close>

lemma ScheduleUpgrade_eq:
  "ScheduleUpgrade k ctx plan s =
     (if Name plan = [] then (Some InvalidPlan, k, s)
      else if timeSet plan \<and> \<not> BlockTime ctx < Time plan then (Some ScheduleInPast, k, s)
      else if timeSet plan \<and> heightSet plan then (Some InvalidSchedule, k, s)
      else if \<not> timeSet plan \<and> sint (Height plan) \<le> sint (BlockHeight ctx)
        then (Some ScheduleInPast, k, s)
      else if s (DoneHeightKey (Name plan)) \<noteq> None
        then (Some (AlreadyCompleted (Name plan)), k, s)
      else (None, k\<lparr>haveCache := False\<rparr>, s(PlanKey \<mapsto> Marshalled plan)))"
  by (simp add: ScheduleUpgrade_def ValidateBasic_def timeSet_def heightSet_def IsZero_def
        After_def InvalidPlan_def InvalidSchedule_def ScheduleInPast_def AlreadyCompleted_def
        Let_def)

lemma plans_set:
  "timeSet timePlan" "\<not> heightSet timePlan" "\<not> timeSet heightPlan" "heightSet heightPlan"
  "\<not> timeSet zeroPlan" "\<not> heightSet zeroPlan"
  by (simp_all add: timeSet_def heightSet_def IsZero_def timePlan_def heightPlan_def zeroPlan_def)

lemma plans_named: "Name timePlan \<noteq> []" "Name heightPlan \<noteq> []" "Name zeroPlan = []"
  by (simp_all add: timePlan_def heightPlan_def zeroPlan_def)

text \<open>
  C2, as the specification states it, fails. \<^verbatim>\<open>Plan{Name: "test"}\<close>, with neither time nor
  height set, is rejected at height 10 as scheduled in the past, not as an invalid
  schedule; and a plan named "test" with both set, whose time is the block's own time,
  is rejected as scheduled in the past as well.
\<close>

theorem ScheduleUpgrade_InvalidSchedule_counterexample:
  "Name (zeroPlan\<lparr>Name := ''test''\<rparr>) \<noteq> []
   \<and> \<not> timeSet (zeroPlan\<lparr>Name := ''test''\<rparr>) \<and> \<not> heightSet (zeroPlan\<lparr>Name := ''test''\<rparr>)
   \<and> errorOf (ScheduleUpgrade testKeeper testCtx (zeroPlan\<lparr>Name := ''test''\<rparr>) Map.empty)
       = Some ScheduleInPast
   \<and> errorOf (ScheduleUpgrade testKeeper testCtx (zeroPlan\<lparr>Name := ''test''\<rparr>) Map.empty)
       \<noteq> Some InvalidSchedule
   \<and> Name (heightPlan\<lparr>Time := 1000\<rparr>) \<noteq> []
   \<and> timeSet (heightPlan\<lparr>Time := 1000\<rparr>) \<and> heightSet (heightPlan\<lparr>Time := 1000\<rparr>)
   \<and> errorOf (ScheduleUpgrade testKeeper testCtx (heightPlan\<lparr>Time := 1000\<rparr>) Map.empty)
       = Some ScheduleInPast
   \<and> errorOf (ScheduleUpgrade testKeeper testCtx (heightPlan\<lparr>Time := 1000\<rparr>) Map.empty)
       \<noteq> Some InvalidSchedule"
  by (simp add: ScheduleUpgrade_eq errorOf_def timeSet_def heightSet_def IsZero_def
        zeroPlan_def heightPlan_def testCtx_def)

text \<open>
  C2, amended. For a plan with a non-empty name, \<^verbatim>\<open>ScheduleUpgrade\<close> fails with
  InvalidSchedule exactly when both time and height are set and the time is strictly
  after the current block time. A plan with both set whose time is not after the block
  time is rejected with ScheduleInPast, and so is a plan with neither set, at any block
  height that is not negative.
\<close>

theorem ScheduleUpgrade_InvalidSchedule_iff:
  assumes "Name plan \<noteq> []"
  shows "(errorOf (ScheduleUpgrade k ctx plan s) = Some InvalidSchedule
            \<longleftrightarrow> timeSet plan \<and> heightSet plan \<and> BlockTime ctx < Time plan)
         \<and> (timeSet plan \<and> heightSet plan \<and> \<not> BlockTime ctx < Time plan
              \<longrightarrow> errorOf (ScheduleUpgrade k ctx plan s) = Some ScheduleInPast)
         \<and> (\<not> timeSet plan \<and> \<not> heightSet plan \<and> 0 \<le> sint (BlockHeight ctx)
              \<longrightarrow> errorOf (ScheduleUpgrade k ctx plan s) = Some ScheduleInPast)"
  using assms by (auto simp: ScheduleUpgrade_eq errorOf_def heightSet_def)

theorem ScheduleUpgrade_InvalidSchedule_iff_witness:
  "Name (timePlan\<lparr>Height := 11\<rparr>) \<noteq> []
   \<and> timeSet (timePlan\<lparr>Height := 11\<rparr>) \<and> heightSet (timePlan\<lparr>Height := 11\<rparr>)
   \<and> BlockTime testCtx < Time (timePlan\<lparr>Height := 11\<rparr>)
   \<and> errorOf (ScheduleUpgrade testKeeper testCtx (timePlan\<lparr>Height := 11\<rparr>) Map.empty)
       = Some InvalidSchedule
   \<and> Name (heightPlan\<lparr>Time := 1000\<rparr>) \<noteq> []
   \<and> timeSet (heightPlan\<lparr>Time := 1000\<rparr>) \<and> heightSet (heightPlan\<lparr>Time := 1000\<rparr>)
   \<and> \<not> BlockTime testCtx < Time (heightPlan\<lparr>Time := 1000\<rparr>)
   \<and> errorOf (ScheduleUpgrade testKeeper testCtx (heightPlan\<lparr>Time := 1000\<rparr>) Map.empty)
       = Some ScheduleInPast
   \<and> Name (zeroPlan\<lparr>Name := ''test''\<rparr>) \<noteq> []
   \<and> \<not> timeSet (zeroPlan\<lparr>Name := ''test''\<rparr>) \<and> \<not> heightSet (zeroPlan\<lparr>Name := ''test''\<rparr>)
   \<and> 0 \<le> sint (BlockHeight testCtx)
   \<and> errorOf (ScheduleUpgrade testKeeper testCtx (zeroPlan\<lparr>Name := ''test''\<rparr>) Map.empty)
       = Some ScheduleInPast"
proof -
  have a: "Name (timePlan\<lparr>Height := 11\<rparr>) \<noteq> []"
    "timeSet (timePlan\<lparr>Height := 11\<rparr>)" "heightSet (timePlan\<lparr>Height := 11\<rparr>)"
    "BlockTime testCtx < Time (timePlan\<lparr>Height := 11\<rparr>)"
    by (simp_all add: timePlan_def timeSet_def heightSet_def IsZero_def testCtx_def)
  have b: "Name (heightPlan\<lparr>Time := 1000\<rparr>) \<noteq> []"
    "timeSet (heightPlan\<lparr>Time := 1000\<rparr>)" "heightSet (heightPlan\<lparr>Time := 1000\<rparr>)"
    "\<not> BlockTime testCtx < Time (heightPlan\<lparr>Time := 1000\<rparr>)"
    by (simp_all add: heightPlan_def timeSet_def heightSet_def IsZero_def testCtx_def)
  have c: "Name (zeroPlan\<lparr>Name := ''test''\<rparr>) \<noteq> []"
    "\<not> timeSet (zeroPlan\<lparr>Name := ''test''\<rparr>)" "\<not> heightSet (zeroPlan\<lparr>Name := ''test''\<rparr>)"
    "0 \<le> sint (BlockHeight testCtx)"
    by (simp_all add: zeroPlan_def timeSet_def heightSet_def IsZero_def testCtx_def)
  from ScheduleUpgrade_InvalidSchedule_iff [OF a(1), of testKeeper testCtx Map.empty]
    ScheduleUpgrade_InvalidSchedule_iff [OF b(1), of testKeeper testCtx Map.empty]
    ScheduleUpgrade_InvalidSchedule_iff [OF c(1), of testKeeper testCtx Map.empty]
    a b c
  show ?thesis by blast
qed

text \<open>
  A plan with a non-empty name, exactly one of time and height set and its target
  strictly after the current block passes these checks.
\<close>

lemma passesChecks_exactlyOneSet:
  "Name plan \<noteq> [] \<Longrightarrow> exactlyOneSet plan \<Longrightarrow> targetInFuture ctx plan
     \<Longrightarrow> passesChecks ctx plan"
  by (auto simp: passesChecks_def exactlyOneSet_def targetInFuture_def)

text \<open>
  C7. A plan that passes the other validations and whose name has a done record in the
  store is rejected with AlreadyCompleted, and the call leaves the store and the keeper
  as they were: the plan is not persisted.
\<close>

theorem ScheduleUpgrade_AlreadyCompleted:
  assumes "passesChecks ctx plan"
    and "s (DoneHeightKey (Name plan)) \<noteq> None"
  shows "ScheduleUpgrade k ctx plan s = (Some (AlreadyCompleted (Name plan)), k, s)"
  using assms by (auto simp: ScheduleUpgrade_eq passesChecks_def split: if_splits)

theorem ScheduleUpgrade_AlreadyCompleted_witness:
  "passesChecks testCtx timePlan
   \<and> [DoneHeightKey ''test'' \<mapsto> Raw (PutUint64 11)] (DoneHeightKey (Name timePlan)) \<noteq> None
   \<and> ScheduleUpgrade testKeeper testCtx timePlan [DoneHeightKey ''test'' \<mapsto> Raw (PutUint64 11)]
       = (Some (AlreadyCompleted ''test''), testKeeper,
          [DoneHeightKey ''test'' \<mapsto> Raw (PutUint64 11)])"
proof -
  have n: "Name timePlan = ''test''"
    by (simp add: timePlan_def)
  have "exactlyOneSet timePlan" "targetInFuture testCtx timePlan"
    by (simp_all add: exactlyOneSet_def targetInFuture_def plans_set)
      (simp add: timePlan_def testCtx_def)
  with plans_named(1) have a: "passesChecks testCtx timePlan"
    by (rule passesChecks_exactlyOneSet)
  have b: "[DoneHeightKey ''test'' \<mapsto> Raw (PutUint64 11)] (DoneHeightKey (Name timePlan)) \<noteq> None"
    by (simp add: n)
  from ScheduleUpgrade_AlreadyCompleted
      [where plan = timePlan and ctx = testCtx and k = testKeeper
         and s = "[DoneHeightKey ''test'' \<mapsto> Raw (PutUint64 11)]", OF a b] a b
  show ?thesis
    by (simp add: n)
qed

text \<open>
  C8, as stated for every plan, fails for one with an empty name: \<^verbatim>\<open>Plan{Height: 10}\<close>
  has exactly one of time and height set and its target is not after height 10, but the
  call fails on the name, before the target is looked at.
\<close>

theorem ScheduleUpgrade_ScheduleInPast_counterexample:
  "exactlyOneSet (zeroPlan\<lparr>Height := 10\<rparr>)
   \<and> \<not> targetInFuture testCtx (zeroPlan\<lparr>Height := 10\<rparr>)
   \<and> errorOf (ScheduleUpgrade testKeeper testCtx (zeroPlan\<lparr>Height := 10\<rparr>) Map.empty)
       = Some InvalidPlan
   \<and> errorOf (ScheduleUpgrade testKeeper testCtx (zeroPlan\<lparr>Height := 10\<rparr>) Map.empty)
       \<noteq> Some ScheduleInPast"
  by (simp add: ScheduleUpgrade_eq errorOf_def exactlyOneSet_def targetInFuture_def timeSet_def
        heightSet_def IsZero_def zeroPlan_def testCtx_def)

text \<open>
  C8, amended. For a plan with a non-empty name and exactly one of time and height set,
  \<^verbatim>\<open>ScheduleUpgrade\<close> fails with ScheduleInPast exactly when the target is not strictly
  greater than the current block's time, respectively height.
\<close>

theorem ScheduleUpgrade_ScheduleInPast_iff:
  assumes "Name plan \<noteq> []"
    and "exactlyOneSet plan"
  shows "errorOf (ScheduleUpgrade k ctx plan s) = Some ScheduleInPast
           \<longleftrightarrow> \<not> targetInFuture ctx plan"
  using assms by (auto simp: ScheduleUpgrade_eq errorOf_def exactlyOneSet_def targetInFuture_def)

theorem ScheduleUpgrade_ScheduleInPast_iff_witness:
  "Name (heightPlan\<lparr>Height := 10\<rparr>) \<noteq> [] \<and> exactlyOneSet (heightPlan\<lparr>Height := 10\<rparr>)
   \<and> \<not> targetInFuture testCtx (heightPlan\<lparr>Height := 10\<rparr>)
   \<and> errorOf (ScheduleUpgrade testKeeper testCtx (heightPlan\<lparr>Height := 10\<rparr>) Map.empty)
       = Some ScheduleInPast
   \<and> Name (timePlan\<lparr>Time := 1000\<rparr>) \<noteq> [] \<and> exactlyOneSet (timePlan\<lparr>Time := 1000\<rparr>)
   \<and> \<not> targetInFuture testCtx (timePlan\<lparr>Time := 1000\<rparr>)
   \<and> errorOf (ScheduleUpgrade testKeeper testCtx (timePlan\<lparr>Time := 1000\<rparr>) Map.empty)
       = Some ScheduleInPast
   \<and> Name heightPlan \<noteq> [] \<and> exactlyOneSet heightPlan
   \<and> targetInFuture testCtx heightPlan
   \<and> errorOf (ScheduleUpgrade testKeeper testCtx heightPlan Map.empty) \<noteq> Some ScheduleInPast"
proof -
  have a: "Name (heightPlan\<lparr>Height := 10\<rparr>) \<noteq> []" "exactlyOneSet (heightPlan\<lparr>Height := 10\<rparr>)"
    "\<not> targetInFuture testCtx (heightPlan\<lparr>Height := 10\<rparr>)"
    by (simp_all add: heightPlan_def exactlyOneSet_def targetInFuture_def timeSet_def
          heightSet_def IsZero_def testCtx_def)
  have b: "Name (timePlan\<lparr>Time := 1000\<rparr>) \<noteq> []" "exactlyOneSet (timePlan\<lparr>Time := 1000\<rparr>)"
    "\<not> targetInFuture testCtx (timePlan\<lparr>Time := 1000\<rparr>)"
    by (simp_all add: timePlan_def exactlyOneSet_def targetInFuture_def timeSet_def
          heightSet_def IsZero_def testCtx_def)
  have c: "Name heightPlan \<noteq> []" "exactlyOneSet heightPlan" "targetInFuture testCtx heightPlan"
    by (simp_all add: heightPlan_def exactlyOneSet_def targetInFuture_def timeSet_def
          heightSet_def IsZero_def testCtx_def)
  from ScheduleUpgrade_ScheduleInPast_iff [OF a(1,2), of testKeeper testCtx Map.empty]
    ScheduleUpgrade_ScheduleInPast_iff [OF b(1,2), of testKeeper testCtx Map.empty]
    ScheduleUpgrade_ScheduleInPast_iff [OF c(1,2), of testKeeper testCtx Map.empty]
    a b c
  show ?thesis by blast
qed

text \<open>
  C10. Whenever \<^verbatim>\<open>ScheduleUpgrade\<close> returns an error, the store it leaves is the store
  it was given, at every key (the plan slot and every done record), and the keeper is
  unchanged too.
\<close>

theorem ScheduleUpgrade_error_no_write:
  assumes "errorOf (ScheduleUpgrade k ctx plan s) \<noteq> None"
  shows "storeOf (ScheduleUpgrade k ctx plan s) = s \<and> keeperOf (ScheduleUpgrade k ctx plan s) = k"
  using assms
  by (auto simp: ScheduleUpgrade_eq errorOf_def storeOf_def keeperOf_def split: if_splits)

theorem ScheduleUpgrade_error_no_write_witness:
  "errorOf (ScheduleUpgrade testKeeper testCtx zeroPlan [PlanKey \<mapsto> Marshalled heightPlan]) \<noteq> None
   \<and> storeOf (ScheduleUpgrade testKeeper testCtx zeroPlan [PlanKey \<mapsto> Marshalled heightPlan])
       = [PlanKey \<mapsto> Marshalled heightPlan]
   \<and> keeperOf (ScheduleUpgrade testKeeper testCtx zeroPlan [PlanKey \<mapsto> Marshalled heightPlan])
       = testKeeper"
proof -
  have h: "errorOf (ScheduleUpgrade testKeeper testCtx zeroPlan [PlanKey \<mapsto> Marshalled heightPlan])
             \<noteq> None"
    by (simp add: ScheduleUpgrade_eq errorOf_def plans_named)
  from ScheduleUpgrade_error_no_write [OF h] h show ?thesis by simp
qed

subsection \<open>Histories\<close>

lemma ScheduleUpgrade_store:
  "storeOf (ScheduleUpgrade k ctx plan s) = s
   \<or> (s (DoneHeightKey (Name plan)) = None
       \<and> storeOf (ScheduleUpgrade k ctx plan s) = s(PlanKey \<mapsto> Marshalled plan))"
  by (simp add: ScheduleUpgrade_eq storeOf_def)

lemma once_Schedule:
  assumes "once c"
  shows "once (c\<lparr>kvstore := storeOf (ScheduleUpgrade k ctx plan (kvstore c))\<rparr>)"
  using ScheduleUpgrade_store [of k ctx plan "kvstore c"]
proof
  assume "storeOf (ScheduleUpgrade k ctx plan (kvstore c)) = kvstore c"
  with assms show ?thesis by simp
next
  assume "kvstore c (DoneHeightKey (Name plan)) = None
     \<and> storeOf (ScheduleUpgrade k ctx plan (kvstore c)) = (kvstore c)(PlanKey \<mapsto> Marshalled plan)"
  with assms show ?thesis by (auto simp: once_def)
qed

lemma once_Clear:
  assumes "once c"
  shows "once (c\<lparr>kvstore := (kvstore c)(PlanKey := None)\<rparr>)"
  using assms by (auto simp: once_def)

text \<open>
  A block evaluation leaves the keeper and the chain as they are (it returns without
  doing anything, or it panics before any call), or it calls the handler of the pending
  plan, which panics or returns.
\<close>

lemma BeginBlocker_cases:
  "(BeginBlocker k ctx c = Returned k c
    \<or> (\<exists>p. BeginBlocker k ctx c = Panicked p k c))
   \<or> (\<exists>plan p a. kvstore c PlanKey = Some (Marshalled plan)
        \<and> BeginBlocker k ctx c =
            Panicked p k (c\<lparr>appState := a, calls := calls c @ [(ctx, plan, False)]\<rparr>))
   \<or> (\<exists>plan a. kvstore c PlanKey = Some (Marshalled plan)
        \<and> BeginBlocker k ctx c =
            Returned (k\<lparr>haveCache := False\<rparr>)
              (c\<lparr>appState := a,
                 calls := calls c @ [(ctx, plan, True)],
                 kvstore := (kvstore c)(PlanKey := None,
                   DoneHeightKey (Name plan) \<mapsto> Raw (PutUint64 (BlockHeight ctx)))\<rparr>))"
proof (cases "kvstore c PlanKey")
  case None
  then show ?thesis
    by (simp add: BeginBlocker_def GetUpgradePlan_def)
next
  case (Some bz)
  show ?thesis
  proof (cases bz)
    case (Raw b)
    with Some show ?thesis
      by (simp add: BeginBlocker_def GetUpgradePlan_def)
  next
    case (Marshalled plan)
    with Some have pending: "kvstore c PlanKey = Some (Marshalled plan)"
      by simp
    show ?thesis
    proof (cases "upgradeHandlers k (Name plan)")
      case None
      then show ?thesis
        unfolding BeginBlocker_pending [OF pending] by simp
    next
      case (Some handler)
      then show ?thesis
        unfolding BeginBlocker_pending [OF pending]
        using pending by (cases "handler ctx plan (appState c)") auto
    qed
  qed
qed

lemma settled_append:
  "settled (es @ [(ctx, plan, r)]) \<longleftrightarrow>
     settled es \<and> (\<forall>e \<in> set es. snd (snd e) \<longrightarrow> Name (fst (snd e)) \<noteq> Name plan)"
  by (induction es) (auto simp: list_all_iff)

lemma once_fresh:
  assumes "once c" and "kvstore c PlanKey = Some (Marshalled plan)"
  shows "\<forall>e \<in> set (calls c). snd (snd e) \<longrightarrow> Name (fst (snd e)) \<noteq> Name plan"
proof -
  from assms have "kvstore c (DoneHeightKey (Name plan)) = None"
    by (simp add: once_def)
  with assms(1) show ?thesis
    by (auto simp: once_def)
qed

lemma once_panicked:
  assumes "once c" and "kvstore c PlanKey = Some (Marshalled plan)"
  shows "once (c\<lparr>appState := a, calls := calls c @ [(ctx, plan, False)]\<rparr>)"
  using assms(1) once_fresh [OF assms]
  by (auto simp: once_def settled_append)

lemma once_applied:
  assumes "once c" and "kvstore c PlanKey = Some (Marshalled plan)"
  shows "once (c\<lparr>appState := a, calls := calls c @ [(ctx, plan, True)],
                 kvstore := (kvstore c)(PlanKey := None, DoneHeightKey (Name plan) \<mapsto> v)\<rparr>)"
  using assms(1) once_fresh [OF assms]
  by (auto simp: once_def settled_append)

lemma once_step:
  assumes "once (snd st)"
  shows "once (snd (step op st))"
proof (cases st)
  case (Pair k c)
  with assms have c: "once c" by simp
  show ?thesis
  proof (cases op)
    case (Schedule ctx plan)
    with Pair once_Schedule [OF c] show ?thesis by (simp add: Let_def)
  next
    case Clear
    with Pair once_Clear [OF c] show ?thesis by (simp add: ClearUpgradePlan_def)
  next
    case (SetHandler name h)
    with Pair c show ?thesis by simp
  next
    case (Block ctx)
    from BeginBlocker_cases [of k ctx c] show ?thesis
    proof (elim disjE exE conjE)
      assume "BeginBlocker k ctx c = Returned k c"
      with Pair Block c show ?thesis by simp
    next
      fix p assume "BeginBlocker k ctx c = Panicked p k c"
      with Pair Block c show ?thesis by simp
    next
      fix plan p a
      assume "kvstore c PlanKey = Some (Marshalled plan)"
        and "BeginBlocker k ctx c =
            Panicked p k (c\<lparr>appState := a, calls := calls c @ [(ctx, plan, False)]\<rparr>)"
      with Pair Block once_panicked [OF c] show ?thesis by simp
    next
      fix plan a
      assume "kvstore c PlanKey = Some (Marshalled plan)"
        and "BeginBlocker k ctx c =
            Returned (k\<lparr>haveCache := False\<rparr>)
              (c\<lparr>appState := a,
                 calls := calls c @ [(ctx, plan, True)],
                 kvstore := (kvstore c)(PlanKey := None,
                   DoneHeightKey (Name plan) \<mapsto> Raw (PutUint64 (BlockHeight ctx)))\<rparr>)"
      with Pair Block once_applied [OF c] show ?thesis by simp
    qed
  next
    case Restart
    with Pair c show ?thesis by simp
  qed
qed

lemma once_run:
  "once (snd st) \<Longrightarrow> once (snd (run ops st))"
  by (induction ops arbitrary: st) (simp_all add: once_step)

lemma once_genesis: "once (snd (genesis a))"
  by (simp add: genesis_def once_def)

text \<open>In a settled record, the invocations of a name that are not its last have panicked.\<close>

lemma settled_butlast:
  "settled es \<Longrightarrow>
     list_all (\<lambda>(ctx, plan, returned). \<not> returned)
       (butlast (filter (\<lambda>(ctx, plan, returned). Name plan = name) es))"
  by (induction es) (auto simp: list_all_iff filter_empty_conv)

lemma at_most_last:
  "list_all (\<lambda>e. \<not> P e) (butlast xs) \<Longrightarrow> length (filter P xs) \<le> 1"
  by (cases xs rule: rev_cases) (auto simp: list_all_iff filter_empty_conv)

text \<open>
  C1, as stated for every history, fails when a handler panics: the call comes before
  \<^verbatim>\<open>ClearUpgradePlan\<close> and \<^verbatim>\<open>setDone\<close>, so the plan stays pending without a done
  record, and the next evaluation of the block invokes the handler of "test" a second
  time.
\<close>

theorem handler_at_most_once_counterexample:
  "invocations ''test'' (run panicTwice (genesis ()))
     = [(newCtx, timePlan, False), (newCtx, timePlan, False)]
   \<and> length (invocations ''test'' (run panicTwice (genesis ()))) = 2"
  by code_simp

text \<open>
  C1, amended. After any history of operations from the start of the chain (scheduling,
  clearing, registering handlers, evaluating blocks, also ones that panic, restarting
  the process), the handler of any one upgrade name has returned at most once, and every
  invocation of it but the last has panicked: once it has returned, its plan is cleared
  and its done record written, and it is never invoked again.
\<close>

theorem handler_returns_at_most_once:
  "applications name (run ops (genesis a)) \<le> 1
   \<and> list_all (\<lambda>(ctx, plan, returned). \<not> returned)
       (butlast (invocations name (run ops (genesis a))))"
proof -
  have "once (snd (run ops (genesis a)))"
    by (rule once_run [OF once_genesis])
  then have "settled (calls (snd (run ops (genesis a))))"
    by (simp add: once_def)
  then have last: "list_all (\<lambda>(ctx, plan, returned). \<not> returned)
       (butlast (invocations name (run ops (genesis a))))"
    unfolding invocations_def by (rule settled_butlast)
  then have "list_all (\<lambda>e. \<not> (\<lambda>(ctx, plan, returned). returned) e)
       (butlast (invocations name (run ops (genesis a))))"
    by (simp add: case_prod_unfold)
  then have "applications name (run ops (genesis a)) \<le> 1"
    unfolding applications_def by (rule at_most_last)
  with last show ?thesis by simp
qed

theorem handler_returns_at_most_once_witness:
  "applications ''test'' (run panicThenApply (genesis ())) \<le> 1
   \<and> list_all (\<lambda>(ctx, plan, returned). \<not> returned)
       (butlast (invocations ''test'' (run panicThenApply (genesis ()))))"
  by (rule handler_returns_at_most_once)

text \<open>
  In that history the handler of "test" panics twice and then returns, and the last
  block evaluation does not invoke it again. In the history of
  \<^verbatim>\<open>TestCantApplySameUpgradeTwice\<close> it is invoked once, and returns.
\<close>

lemma panicThenApply_invocations:
  "invocations ''test'' (run panicThenApply (genesis ()))
     = [(newCtx, timePlan, False), (newCtx, timePlan, False), (newCtx, timePlan, True)]"
  by code_simp

lemma applyTwice_applied_once:
  "invocations ''test'' (run applyTwice (genesis ())) = [(newCtx, timePlan, True)]"
  by code_simp

end
